theory Spec2Isabelle
  imports Main "HOL-Library.Sublist"
begin

section \<open>Text\<close>

text \<open>
  A Python \<open>str\<close> is a sequence of Unicode code points; \<open>len\<close>, slicing and
  \<open>strip\<close> count code points. A string is modelled as the list of its code points.
\<close>

type_synonym pystr = "nat list"

definition lit :: "string \<Rightarrow> pystr" where
  "lit s = map of_char s"

text \<open>
  \<open>str.isspace\<close> for one code point, which is also the class \<open>\s\<close> of \<open>re\<close> on
  \<open>str\<close> patterns: the code points U+0009..U+000D, U+001C..U+0020, U+0085, U+00A0,
  U+1680, U+2000..U+200A, U+2028, U+2029, U+202F, U+205F and U+3000.
\<close>

definition isspace :: "nat \<Rightarrow> bool" where
  "isspace c = ((9 \<le> c \<and> c \<le> 13) \<or> (28 \<le> c \<and> c \<le> 32) \<or> c = 133 \<or> c = 160 \<or> c = 5760
     \<or> (8192 \<le> c \<and> c \<le> 8202) \<or> c = 8232 \<or> c = 8233 \<or> c = 8239 \<or> c = 8287 \<or> c = 12288)"

definition strip :: "pystr \<Rightarrow> pystr" where
  "strip s = rev (dropWhile isspace (rev (dropWhile isspace s)))"

section \<open>The interpreter's tables\<close>

record runtime =
  decimal :: "nat \<Rightarrow> nat option"
  max_str_digits :: nat

definition ascii_runtime :: runtime where
  "ascii_runtime = \<lparr> decimal = (\<lambda>c. if 48 \<le> c \<and> c \<le> 57 then Some (c - 48) else None),
                      max_str_digits = 4300 \<rparr>"

definition isdecimal :: "runtime \<Rightarrow> nat \<Rightarrow> bool" where
  "isdecimal rt c = (decimal rt c \<noteq> None)"

datatype error = ValueError | TypeError | AttributeError

definition py_int :: "runtime \<Rightarrow> pystr \<Rightarrow> error + int" where
  "py_int rt ds =
     (if ds = [] \<or> (\<exists>c \<in> set ds. decimal rt c = None) then Inl ValueError
      else if max_str_digits rt \<noteq> 0 \<and> max_str_digits rt < length ds then Inl ValueError
      else Inr (int (foldl (\<lambda>a c. 10 * a + the (decimal rt c)) 0 ds)))"

section \<open>Regular expressions\<close>

datatype regex =
    Eps
  | Chr nat
  | Str pystr
  | Bol
  | EndZ
  | Rep bool "nat \<Rightarrow> bool" nat "nat option"
  | Seq regex regex
  | Alt regex regex
  | Grp nat regex
  | Look regex

definition seqs :: "regex list \<Rightarrow> regex" where
  "seqs rs = foldr Seq rs Eps"

type_synonym span = "nat \<times> nat"
type_synonym mstate = "nat \<times> (nat \<Rightarrow> span option)"

fun rmatch :: "pystr \<Rightarrow> regex \<Rightarrow> mstate \<Rightarrow> mstate list" where
  "rmatch s Eps st = [st]"
| "rmatch s (Chr c) (i, g) = (if i < length s \<and> s ! i = c then [(Suc i, g)] else [])"
| "rmatch s (Str w) (i, g) = (if take (length w) (drop i s) = w then [(i + length w, g)] else [])"
| "rmatch s Bol (i, g) = (if i = 0 \<or> (i \<le> length s \<and> s ! (i - 1) = 10) then [(i, g)] else [])"
| "rmatch s EndZ (i, g) = (if i = length s then [(i, g)] else [])"
| "rmatch s (Rep greedy p lo hi) (i, g) =
     (let n = length (takeWhile p (drop i s));
          m = (case hi of None \<Rightarrow> n | Some h \<Rightarrow> min n h);
          ks = [lo ..< Suc m]
      in map (\<lambda>k. (i + k, g)) (if greedy then rev ks else ks))"
| "rmatch s (Seq r1 r2) st = concat (map (rmatch s r2) (rmatch s r1 st))"
| "rmatch s (Alt r1 r2) st = rmatch s r1 st @ rmatch s r2 st"
| "rmatch s (Grp k r) (i, g) = map (\<lambda>(j, g'). (j, g'(k \<mapsto> (i, j)))) (rmatch s r (i, g))"
| "rmatch s (Look r) st = (if rmatch s r st = [] then [] else [st])"

record match =
  m_start :: nat
  m_end :: nat
  m_groups :: "nat \<Rightarrow> span option"

definition match_at :: "pystr \<Rightarrow> regex \<Rightarrow> nat \<Rightarrow> match option" where
  "match_at s r i =
     (case rmatch s r (i, \<lambda>_. None) of
        [] \<Rightarrow> None
      | (j, g) # _ \<Rightarrow> Some \<lparr> m_start = i, m_end = j, m_groups = g \<rparr>)"

fun scan :: "pystr \<Rightarrow> regex \<Rightarrow> nat list \<Rightarrow> nat \<Rightarrow> match list" where
  "scan s r [] lo = []"
| "scan s r (i # is) lo =
     (if i < lo then scan s r is lo
      else (case match_at s r i of
              None \<Rightarrow> scan s r is lo
            | Some m \<Rightarrow> m # scan s r is (m_end m)))"

definition finditer :: "regex \<Rightarrow> pystr \<Rightarrow> match list" where
  "finditer r s = scan s r [0 ..< Suc (length s)] 0"

definition group :: "pystr \<Rightarrow> match \<Rightarrow> nat \<Rightarrow> pystr option" where
  "group s m k = (case m_groups m k of None \<Rightarrow> None | Some (a, b) \<Rightarrow> Some (take (b - a) (drop a s)))"

section \<open>parse_readme\<close>

definition is_hash :: "nat \<Rightarrow> bool" where
  "is_hash c = (c = 35)"

definition any_char :: "nat \<Rightarrow> bool" where
  "any_char c = True"

definition pattern :: "runtime \<Rightarrow> regex" where
  "pattern rt = seqs
     [Alt Bol (Chr 10),
      Grp 1 (Rep True is_hash 1 (Some 2)),
      Rep True isspace 1 None,
      Str (lit ''Day''),
      Rep True isspace 1 None,
      Grp 2 (Rep True (isdecimal rt) 1 None),
      Alt (seqs [Rep True isspace 0 None, Chr 58, Rep True isspace 0 None])
          (seqs [Rep True isspace 0 None, Chr 10]),
      Grp 3 (Rep False any_char 0 None),
      Look (Alt (seqs [Chr 10, Rep True is_hash 1 (Some 2), Rep True isspace 1 None,
                       Str (lit ''Day''), Rep True isspace 1 None,
                       Rep True (isdecimal rt) 1 None])
                EndZ)]"

fun collect :: "runtime \<Rightarrow> pystr \<Rightarrow> match list \<Rightarrow> (int \<rightharpoonup> pystr) \<Rightarrow> error + (int \<rightharpoonup> pystr)" where
  "collect rt s [] d = Inr d"
| "collect rt s (m # ms) d =
     (case group s m 2 of
        None \<Rightarrow> Inl TypeError
      | Some ds \<Rightarrow>
         (case py_int rt ds of
            Inl e \<Rightarrow> Inl e
          | Inr day_num \<Rightarrow>
             (case group s m 3 of
                None \<Rightarrow> Inl AttributeError
              | Some t \<Rightarrow> collect rt s ms (d(day_num \<mapsto> strip t)))))"

definition parse_readme :: "runtime \<Rightarrow> pystr option \<Rightarrow> error + (int \<rightharpoonup> pystr)" where
  "parse_readme rt readme =
     (case readme of
        None \<Rightarrow> Inr Map.empty
      | Some content \<Rightarrow> collect rt content (finditer (pattern rt) content) Map.empty)"


section \<open>Text operations of the standard library\<close>

text \<open>\<open>str(n)\<close> for an integer, which is what an f-string field \<open>{day_num}\<close> renders.\<close>

fun digits :: "nat \<Rightarrow> pystr" where
  "digits n = (if n < 10 then [48 + n] else digits (n div 10) @ [48 + n mod 10])"

declare digits.simps [simp del]

definition str_int :: "int \<Rightarrow> pystr" where
  "str_int n = (if n < 0 then 45 # digits (nat (- n)) else digits (nat n))"

text \<open>\<open>s.replace(old, new)\<close>: every non-overlapping occurrence of \<open>old\<close>, left to right;
  an empty \<open>old\<close> matches before every character and at the end.\<close>

fun str_replace :: "pystr \<Rightarrow> pystr \<Rightarrow> pystr \<Rightarrow> pystr" where
  "str_replace old new [] = (if old = [] then new else [])"
| "str_replace old new (x # xs) =
     (if old = [] then new @ x # str_replace old new xs
      else if prefix old (x # xs) then new @ str_replace old new (drop (length old) (x # xs))
      else x # str_replace old new xs)"

text \<open>\<open>s.split(sep)\<close> for a separator of one character.\<close>

fun split_on :: "nat \<Rightarrow> pystr \<Rightarrow> pystr list" where
  "split_on c [] = [[]]"
| "split_on c (x # xs) =
     (if x = c then [] # split_on c xs
      else (case split_on c xs of [] \<Rightarrow> [[x]] | l # ls \<Rightarrow> (x # l) # ls))"

definition startswith :: "pystr \<Rightarrow> pystr \<Rightarrow> bool" where
  "startswith s p = prefix p s"

text \<open>\<open>s.rfind(c)\<close>: the highest index of the character, or -1.\<close>

definition rfind :: "pystr \<Rightarrow> nat \<Rightarrow> int" where
  "rfind s c = (case find (\<lambda>i. s ! i = c) (rev [0 ..< length s]) of None \<Rightarrow> - 1 | Some i \<Rightarrow> int i)"

text \<open>
  \<open>Path(filename).name\<close> and \<open>.suffix\<close> of \<open>pathlib\<close> on a POSIX system (CPython 3.8 to
  3.13): the path is cut at \<open>/\<close>, empty and \<open>.\<close> components are dropped, the name is the
  last component left (empty when there is none), and the suffix is the part of the name from
  its last dot, provided that dot is neither the first nor the last character of the name.
\<close>

definition path_name :: "pystr \<Rightarrow> pystr" where
  "path_name p =
     (case filter (\<lambda>q. q \<noteq> [] \<and> q \<noteq> lit ''.'') (split_on 47 p) of
        [] \<Rightarrow> []
      | q # qs \<Rightarrow> last (q # qs))"

definition path_suffix :: "pystr \<Rightarrow> pystr" where
  "path_suffix p =
     (let name = path_name p; i = rfind name 46
      in if 0 < i \<and> i < int (length name) - 1 then drop (nat i) name else [])"

section \<open>get_language\<close>

definition ext_map :: "(pystr \<times> pystr) list" where
  "ext_map =
     [(lit ''.cu'', lit ''cuda''),
      (lit ''.cpp'', lit ''cpp''),
      (lit ''.c'', lit ''c''),
      (lit ''.h'', lit ''c''),
      (lit ''.cuh'', lit ''cuda''),
      (lit ''.py'', lit ''python''),
      (lit ''.md'', lit ''markdown'')]"

definition get_language :: "pystr \<Rightarrow> pystr" where
  "get_language filename =
     (let ext = path_suffix filename
      in case map_of ext_map ext of None \<Rightarrow> lit ''clike'' | Some l \<Rightarrow> l)"

section \<open>The page templates\<close>

text \<open>
  The literal text of the two f-string templates, cut at their replacement fields, one list
  element for each source line; \<open>{{\<close> and \<open>}}\<close> of the f-strings are the braces they
  produce. Code points outside ASCII and the apostrophe are written as numbers.
\<close>

definition day_t0 :: pystr where
  \<open>day_t0 = concat
    [lit ''<!DOCTYPE html>\<newline>'',
     lit ''<html lang="en">\<newline>'',
     lit ''<head>\<newline>'',
     lit ''    <meta charset="UTF-8">\<newline>'',
     lit ''    <meta name="viewport" content="width=device-width, initial-scale=1.0">\<newline>'',
     lit ''    <title>Day '']\<close>

definition day_t1 :: pystr where
  \<open>day_t1 = concat
    [lit '' - GPU Kernels Learning Journey</title>\<newline>'',
     lit ''    <link rel="stylesheet" href="https://cdnjs.cloudflare.com/ajax/libs/prism/1.29.0/themes/prism-tomorrow.min.css">\<newline>'',
     lit ''    <style>\<newline>'',
     lit ''        * {\<newline>'',
     lit ''            margin: 0;\<newline>'',
     lit ''            padding: 0;\<newline>'',
     lit ''            box-sizing: border-box;\<newline>'',
     lit ''        }\<newline>'',
     lit ''        \<newline>'',
     lit ''        body {\<newline>'',
     lit ''            font-family: -apple-system, BlinkMacSystemFont, '' @ [39] @ lit ''Segoe UI'' @ [39] @ lit '', Roboto, Oxygen, Ubuntu, Cantarell, sans-serif;\<newline>'',
     lit ''            line-height: 1.6;\<newline>'',
     lit ''            color: #333;\<newline>'',
     lit ''            background: #f5f5f5;\<newline>'',
     lit ''        }\<newline>'',
     lit ''        \<newline>'',
     lit ''        .header {\<newline>'',
     lit ''            background: linear-gradient(135deg, #667eea 0%, #764ba2 100%);\<newline>'',
     lit ''            color: white;\<newline>'',
     lit ''            padding: 2rem 1rem;\<newline>'',
     lit ''            text-align: center;\<newline>'',
     lit ''            box-shadow: 0 2px 10px rgba(0,0,0,0.1);\<newline>'',
     lit ''        }\<newline>'',
     lit ''        \<newline>'',
     lit ''        .header h1 {\<newline>'',
     lit ''            font-size: 2.5rem;\<newline>'',
     lit ''            margin-bottom: 0.5rem;\<newline>'',
     lit ''        }\<newline>'',
     lit ''        \<newline>'',
     lit ''        .header .subtitle {\<newline>'',
     lit ''            font-size: 1.1rem;\<newline>'',
     lit ''            opacity: 0.9;\<newline>'',
     lit ''        }\<newline>'',
     lit ''        \<newline>'',
     lit ''        .nav {\<newline>'',
     lit ''            background: white;\<newline>'',
     lit ''            padding: 1rem;\<newline>'',
     lit ''            box-shadow: 0 2px 5px rgba(0,0,0,0.05);\<newline>'',
     lit ''            position: sticky;\<newline>'',
     lit ''            top: 0;\<newline>'',
     lit ''            z-index: 100;\<newline>'',
     lit ''        }\<newline>'',
     lit ''        \<newline>'',
     lit ''        .nav-content {\<newline>'',
     lit ''            max-width: 1200px;\<newline>'',
     lit ''            margin: 0 auto;\<newline>'',
     lit ''            display: flex;\<newline>'',
     lit ''            justify-content: space-between;\<newline>'',
     lit ''            align-items: center;\<newline>'',
     lit ''            flex-wrap: wrap;\<newline>'',
     lit ''            gap: 1rem;\<newline>'',
     lit ''        }\<newline>'',
     lit ''        \<newline>'',
     lit ''        .nav a {\<newline>'',
     lit ''            color: #667eea;\<newline>'',
     lit ''            text-decoration: none;\<newline>'',
     lit ''            padding: 0.5rem 1rem;\<newline>'',
     lit ''            border-radius: 5px;\<newline>'',
     lit ''            transition: all 0.3s;\<newline>'',
     lit ''        }\<newline>'',
     lit ''        \<newline>'',
     lit ''        .nav a:hover {\<newline>'',
     lit ''            background: #667eea;\<newline>'',
     lit ''            color: white;\<newline>'',
     lit ''        }\<newline>'',
     lit ''        \<newline>'',
     lit ''        .container {\<newline>'',
     lit ''            max-width: 1200px;\<newline>'',
     lit ''            margin: 2rem auto;\<newline>'',
     lit ''            padding: 0 1rem;\<newline>'',
     lit ''        }\<newline>'',
     lit ''        \<newline>'',
     lit ''        .description {\<newline>'',
     lit ''            background: white;\<newline>'',
     lit ''            padding: 2rem;\<newline>'',
     lit ''            border-radius: 10px;\<newline>'',
     lit ''            box-shadow: 0 2px 10px rgba(0,0,0,0.05);\<newline>'',
     lit ''            margin-bottom: 2rem;\<newline>'',
     lit ''        }\<newline>'',
     lit ''        \<newline>'',
     lit ''        .description h2 {\<newline>'',
     lit ''            color: #667eea;\<newline>'',
     lit ''            margin-bottom: 1rem;\<newline>'',
     lit ''            border-bottom: 2px solid #667eea;\<newline>'',
     lit ''            padding-bottom: 0.5rem;\<newline>'',
     lit ''        }\<newline>'',
     lit ''        \<newline>'',
     lit ''        .description pre {\<newline>'',
     lit ''            background: #f5f5f5;\<newline>'',
     lit ''            padding: 1rem;\<newline>'',
     lit ''            border-radius: 5px;\<newline>'',
     lit ''            overflow-x: auto;\<newline>'',
     lit ''        }\<newline>'',
     lit ''        \<newline>'',
     lit ''        .file-section {\<newline>'',
     lit ''            background: white;\<newline>'',
     lit ''            margin-bottom: 2rem;\<newline>'',
     lit ''            border-radius: 10px;\<newline>'',
     lit ''            overflow: hidden;\<newline>'',
     lit ''            box-shadow: 0 2px 10px rgba(0,0,0,0.05);\<newline>'',
     lit ''        }\<newline>'',
     lit ''        \<newline>'',
     lit ''        .file-section h3 {\<newline>'',
     lit ''            background: #667eea;\<newline>'',
     lit ''            color: white;\<newline>'',
     lit ''            padding: 1rem;\<newline>'',
     lit ''            margin: 0;\<newline>'',
     lit ''        }\<newline>'',
     lit ''        \<newline>'',
     lit ''        .file-section pre {\<newline>'',
     lit ''            margin: 0;\<newline>'',
     lit ''            border-radius: 0;\<newline>'',
     lit ''        }\<newline>'',
     lit ''        \<newline>'',
     lit ''        .file-section code {\<newline>'',
     lit ''            display: block;\<newline>'',
     lit ''            padding: 1.5rem;\<newline>'',
     lit ''            max-height: 600px;\<newline>'',
     lit ''            overflow: auto;\<newline>'',
     lit ''        }\<newline>'',
     lit ''        \<newline>'',
     lit ''        .no-files {\<newline>'',
     lit ''            text-align: center;\<newline>'',
     lit ''            padding: 3rem;\<newline>'',
     lit ''            color: #999;\<newline>'',
     lit ''            font-style: italic;\<newline>'',
     lit ''        }\<newline>'',
     lit ''        \<newline>'',
     lit ''        @media (max-width: 768px) {\<newline>'',
     lit ''            .header h1 {\<newline>'',
     lit ''                font-size: 1.8rem;\<newline>'',
     lit ''            }\<newline>'',
     lit ''            \<newline>'',
     lit ''            .nav-content {\<newline>'',
     lit ''                flex-direction: column;\<newline>'',
     lit ''                text-align: center;\<newline>'',
     lit ''            }\<newline>'',
     lit ''        }\<newline>'',
     lit ''    </style>\<newline>'',
     lit ''</head>\<newline>'',
     lit ''<body>\<newline>'',
     lit ''    <div class="header">\<newline>'',
     lit ''        <h1>Day '']\<close>

definition day_t2 :: pystr where
  \<open>day_t2 = concat
    [lit ''</h1>\<newline>'',
     lit ''        <div class="subtitle">GPU Kernels Learning Journey</div>\<newline>'',
     lit ''    </div>\<newline>'',
     lit ''    \<newline>'',
     lit ''    <nav class="nav">\<newline>'',
     lit ''        <div class="nav-content">\<newline>'',
     lit ''            <a href="index.html">'' @ [8592] @ lit '' Back to Index</a>\<newline>'',
     lit ''            <div>\<newline>'',
     lit ''                '']\<close>

definition day_t3 :: pystr where
  \<open>day_t3 = concat
    [lit ''\<newline>'',
     lit ''                '']\<close>

definition day_t4 :: pystr where
  \<open>day_t4 = concat
    [lit ''\<newline>'',
     lit ''            </div>\<newline>'',
     lit ''        </div>\<newline>'',
     lit ''    </nav>\<newline>'',
     lit ''    \<newline>'',
     lit ''    <div class="container">\<newline>'',
     lit ''        <div class="description">\<newline>'',
     lit ''            <h2>Description</h2>\<newline>'',
     lit ''            <div class="desc-content">\<newline>'']\<close>

definition day_t5 :: pystr where
  \<open>day_t5 = concat
    [lit ''\<newline>'',
     lit ''            </div>\<newline>'',
     lit ''        </div>\<newline>'',
     lit ''        \<newline>'',
     lit ''        <h2 style="margin-bottom: 1rem; color: #667eea;">Code Files</h2>\<newline>'']\<close>

definition day_t6 :: pystr where
  \<open>day_t6 = concat
    [lit ''\<newline>'',
     lit ''    </div>\<newline>'',
     lit ''    \<newline>'',
     lit ''    <script src="https://cdnjs.cloudflare.com/ajax/libs/prism/1.29.0/prism.min.js"></script>\<newline>'',
     lit ''    <script src="https://cdnjs.cloudflare.com/ajax/libs/prism/1.29.0/components/prism-c.min.js"></script>\<newline>'',
     lit ''    <script src="https://cdnjs.cloudflare.com/ajax/libs/prism/1.29.0/components/prism-cpp.min.js"></script>\<newline>'',
     lit ''    <script src="https://cdnjs.cloudflare.com/ajax/libs/prism/1.29.0/components/prism-python.min.js"></script>\<newline>'',
     lit ''    <script src="https://cdnjs.cloudflare.com/ajax/libs/prism/1.29.0/components/prism-markdown.min.js"></script>\<newline>'',
     lit ''</body>\<newline>'',
     lit ''</html>'']\<close>

definition index_t0 :: pystr where
  \<open>index_t0 = concat
    [lit ''<!DOCTYPE html>\<newline>'',
     lit ''<html lang="en">\<newline>'',
     lit ''<head>\<newline>'',
     lit ''    <meta charset="UTF-8">\<newline>'',
     lit ''    <meta name="viewport" content="width=device-width, initial-scale=1.0">\<newline>'',
     lit ''    <title>GPU Kernels - 100 Days Learning Journey</title>\<newline>'',
     lit ''    <style>\<newline>'',
     lit ''        * {\<newline>'',
     lit ''            margin: 0;\<newline>'',
     lit ''            padding: 0;\<newline>'',
     lit ''            box-sizing: border-box;\<newline>'',
     lit ''        }\<newline>'',
     lit ''        \<newline>'',
     lit ''        body {\<newline>'',
     lit ''            font-family: -apple-system, BlinkMacSystemFont, '' @ [39] @ lit ''Segoe UI'' @ [39] @ lit '', Roboto, Oxygen, Ubuntu, Cantarell, sans-serif;\<newline>'',
     lit ''            line-height: 1.6;\<newline>'',
     lit ''            color: #333;\<newline>'',
     lit ''            background: #f5f5f5;\<newline>'',
     lit ''        }\<newline>'',
     lit ''        \<newline>'',
     lit ''        .hero {\<newline>'',
     lit ''            background: linear-gradient(135deg, #667eea 0%, #764ba2 100%);\<newline>'',
     lit ''            color: white;\<newline>'',
     lit ''            padding: 4rem 1rem;\<newline>'',
     lit ''            text-align: center;\<newline>'',
     lit ''        }\<newline>'',
     lit ''        \<newline>'',
     lit ''        .hero h1 {\<newline>'',
     lit ''            font-size: 3rem;\<newline>'',
     lit ''            margin-bottom: 1rem;\<newline>'',
     lit ''            font-weight: 700;\<newline>'',
     lit ''        }\<newline>'',
     lit ''        \<newline>'',
     lit ''        .hero p {\<newline>'',
     lit ''            font-size: 1.3rem;\<newline>'',
     lit ''            opacity: 0.95;\<newline>'',
     lit ''            max-width: 800px;\<newline>'',
     lit ''            margin: 0 auto 2rem;\<newline>'',
     lit ''        }\<newline>'',
     lit ''        \<newline>'',
     lit ''        .hero .links {\<newline>'',
     lit ''            display: flex;\<newline>'',
     lit ''            gap: 1rem;\<newline>'',
     lit ''            justify-content: center;\<newline>'',
     lit ''            flex-wrap: wrap;\<newline>'',
     lit ''        }\<newline>'',
     lit ''        \<newline>'',
     lit ''        .hero .links a {\<newline>'',
     lit ''            color: white;\<newline>'',
     lit ''            text-decoration: none;\<newline>'',
     lit ''            padding: 0.8rem 1.5rem;\<newline>'',
     lit ''            border: 2px solid white;\<newline>'',
     lit ''            border-radius: 5px;\<newline>'',
     lit ''            transition: all 0.3s;\<newline>'',
     lit ''            font-weight: 500;\<newline>'',
     lit ''        }\<newline>'',
     lit ''        \<newline>'',
     lit ''        .hero .links a:hover {\<newline>'',
     lit ''            background: white;\<newline>'',
     lit ''            color: #667eea;\<newline>'',
     lit ''        }\<newline>'',
     lit ''        \<newline>'',
     lit ''        .container {\<newline>'',
     lit ''            max-width: 1400px;\<newline>'',
     lit ''            margin: 0 auto;\<newline>'',
     lit ''            padding: 3rem 1rem;\<newline>'',
     lit ''        }\<newline>'',
     lit ''        \<newline>'',
     lit ''        .section-title {\<newline>'',
     lit ''            text-align: center;\<newline>'',
     lit ''            font-size: 2.5rem;\<newline>'',
     lit ''            color: #333;\<newline>'',
     lit ''            margin-bottom: 3rem;\<newline>'',
     lit ''            font-weight: 700;\<newline>'',
     lit ''        }\<newline>'',
     lit ''        \<newline>'',
     lit ''        .day-grid {\<newline>'',
     lit ''            display: grid;\<newline>'',
     lit ''            grid-template-columns: repeat(auto-fill, minmax(300px, 1fr));\<newline>'',
     lit ''            gap: 2rem;\<newline>'',
     lit ''        }\<newline>'',
     lit ''        \<newline>'',
     lit ''        .day-card {\<newline>'',
     lit ''            background: white;\<newline>'',
     lit ''            border-radius: 10px;\<newline>'',
     lit ''            padding: 1.5rem;\<newline>'',
     lit ''            box-shadow: 0 2px 10px rgba(0,0,0,0.05);\<newline>'',
     lit ''            transition: all 0.3s;\<newline>'',
     lit ''            display: flex;\<newline>'',
     lit ''            flex-direction: column;\<newline>'',
     lit ''        }\<newline>'',
     lit ''        \<newline>'',
     lit ''        .day-card:hover {\<newline>'',
     lit ''            transform: translateY(-5px);\<newline>'',
     lit ''            box-shadow: 0 5px 20px rgba(102, 126, 234, 0.2);\<newline>'',
     lit ''        }\<newline>'',
     lit ''        \<newline>'',
     lit ''        .day-number {\<newline>'',
     lit ''            font-size: 1.8rem;\<newline>'',
     lit ''            font-weight: 700;\<newline>'',
     lit ''            color: #667eea;\<newline>'',
     lit ''            margin-bottom: 0.5rem;\<newline>'',
     lit ''        }\<newline>'',
     lit ''        \<newline>'',
     lit ''        .day-preview {\<newline>'',
     lit ''            color: #666;\<newline>'',
     lit ''            flex-grow: 1;\<newline>'',
     lit ''            margin-bottom: 1rem;\<newline>'',
     lit ''            font-size: 0.95rem;\<newline>'',
     lit ''            line-height: 1.5;\<newline>'',
     lit ''        }\<newline>'',
     lit ''        \<newline>'',
     lit ''        .day-link {\<newline>'',
     lit ''            color: #667eea;\<newline>'',
     lit ''            text-decoration: none;\<newline>'',
     lit ''            font-weight: 600;\<newline>'',
     lit ''            transition: all 0.3s;\<newline>'',
     lit ''            display: inline-block;\<newline>'',
     lit ''        }\<newline>'',
     lit ''        \<newline>'',
     lit ''        .day-link:hover {\<newline>'',
     lit ''            color: #764ba2;\<newline>'',
     lit ''            transform: translateX(5px);\<newline>'',
     lit ''        }\<newline>'',
     lit ''        \<newline>'',
     lit ''        .footer {\<newline>'',
     lit ''            background: #333;\<newline>'',
     lit ''            color: white;\<newline>'',
     lit ''            text-align: center;\<newline>'',
     lit ''            padding: 2rem 1rem;\<newline>'',
     lit ''            margin-top: 4rem;\<newline>'',
     lit ''        }\<newline>'',
     lit ''        \<newline>'',
     lit ''        .footer a {\<newline>'',
     lit ''            color: #667eea;\<newline>'',
     lit ''            text-decoration: none;\<newline>'',
     lit ''        }\<newline>'',
     lit ''        \<newline>'',
     lit ''        .footer a:hover {\<newline>'',
     lit ''            text-decoration: underline;\<newline>'',
     lit ''        }\<newline>'',
     lit ''        \<newline>'',
     lit ''        @media (max-width: 768px) {\<newline>'',
     lit ''            .hero h1 {\<newline>'',
     lit ''                font-size: 2rem;\<newline>'',
     lit ''            }\<newline>'',
     lit ''            \<newline>'',
     lit ''            .hero p {\<newline>'',
     lit ''                font-size: 1.1rem;\<newline>'',
     lit ''            }\<newline>'',
     lit ''            \<newline>'',
     lit ''            .section-title {\<newline>'',
     lit ''                font-size: 2rem;\<newline>'',
     lit ''            }\<newline>'',
     lit ''            \<newline>'',
     lit ''            .day-grid {\<newline>'',
     lit ''                grid-template-columns: 1fr;\<newline>'',
     lit ''            }\<newline>'',
     lit ''        }\<newline>'',
     lit ''    </style>\<newline>'',
     lit ''</head>\<newline>'',
     lit ''<body>\<newline>'',
     lit ''    <div class="hero">\<newline>'',
     lit ''        <h1>'' @ [128640] @ lit '' GPU Kernels Learning Journey</h1>\<newline>'',
     lit ''        <p>A 100-day journey of learning GPU programming and parallel computing with CUDA, HIP, and more</p>\<newline>'',
     lit ''        <div class="links">\<newline>'',
     lit ''            <a href="https://github.com/douyixuan/gpu-kernels" target="_blank">GitHub Repository</a>\<newline>'',
     lit ''            <a href="https://hamdi.bearblog.dev/" target="_blank">Blog</a>\<newline>'',
     lit ''        </div>\<newline>'',
     lit ''    </div>\<newline>'',
     lit ''    \<newline>'',
     lit ''    <div class="container">\<newline>'',
     lit ''        <h2 class="section-title">100 Days of GPU Programming</h2>\<newline>'',
     lit ''        <div class="day-grid">\<newline>'']\<close>

definition index_t1 :: pystr where
  \<open>index_t1 = concat
    [lit ''\<newline>'',
     lit ''        </div>\<newline>'',
     lit ''    </div>\<newline>'',
     lit ''    \<newline>'',
     lit ''    <div class="footer">\<newline>'',
     lit ''        <p>Created as part of the 100 Days GPU Programming Challenge</p>\<newline>'',
     lit ''        <p>Mentor: <a href="https://github.com/hkproj/" target="_blank">hkproj</a> | \<newline>'',
     lit ''           Challenge Partner: <a href="https://github.com/1y33/100Days" target="_blank">1y33</a></p>\<newline>'',
     lit ''    </div>\<newline>'',
     lit ''</body>\<newline>'',
     lit ''</html>'']\<close>

section \<open>generate_day_page\<close>

definition escape_content :: "pystr \<Rightarrow> pystr" where
  "escape_content content =
     str_replace [62] (lit ''&gt;'') (str_replace [60] (lit ''&lt;'') (str_replace [38] (lit ''&amp;'') content))"

definition file_section :: "pystr \<Rightarrow> pystr \<Rightarrow> pystr" where
  \<open>file_section filename content =
     (let lang = get_language filename;
          escaped_content = escape_content content
      in concat
        [lit ''\<newline>'',
         lit ''    <div class="file-section">\<newline>'',
         lit ''        <h3>'', filename, lit ''</h3>\<newline>'',
         lit ''        <pre><code class="language-'', lang, lit ''">'', escaped_content, lit ''</code></pre>\<newline>'',
         lit ''    </div>\<newline>''])\<close>

definition no_files :: pystr where
  \<open>no_files = lit ''<p class="no-files">No code files found for this day.</p>''\<close>

definition files_html :: "(pystr \<times> pystr) list \<Rightarrow> pystr" where
  "files_html files =
     (if files \<noteq> [] then foldl (\<lambda>acc (filename, content). acc @ file_section filename content) [] files
      else no_files)"

definition prev_link :: "int \<Rightarrow> pystr" where
  \<open>prev_link day_num =
     (if day_num > 1
      then concat [lit ''<a href="day-'', str_int (day_num - 1), lit ''.html">'', [8592],
                   lit '' Day '', str_int (day_num - 1), lit ''</a>'']
      else [])\<close>

definition next_link :: "int \<Rightarrow> pystr" where
  \<open>next_link day_num =
     (if day_num < 100
      then concat [lit ''<a href="day-'', str_int (day_num + 1), lit ''.html">Day '',
                   str_int (day_num + 1), lit '' '', [8594], lit ''</a>'']
      else [])\<close>

definition no_description :: pystr where
  \<open>no_description = lit ''<p>No description available for this day.</p>''\<close>

definition generate_day_page :: "int \<Rightarrow> pystr \<Rightarrow> (pystr \<times> pystr) list \<Rightarrow> pystr" where
  "generate_day_page day_num description files =
     concat
       [day_t0, str_int day_num,
        day_t1, str_int day_num,
        day_t2, prev_link day_num,
        day_t3, next_link day_num,
        day_t4, (if description \<noteq> [] then description else no_description),
        day_t5, files_html files,
        day_t6]"

section \<open>generate_index_page\<close>

fun first_preview :: "pystr list \<Rightarrow> pystr" where
  "first_preview [] = []"
| "first_preview (l # ls) =
     (let line = strip l
      in if line \<noteq> [] \<and> \<not> startswith line (lit ''#'')
         then take 150 line @ (if length line > 150 then lit ''...'' else [])
         else first_preview ls)"

definition preview_text :: "pystr \<Rightarrow> pystr" where
  "preview_text desc =
     (let preview = (if desc \<noteq> [] then first_preview (split_on 10 desc) else [])
      in if preview = [] then lit ''Click to view details'' else preview)"

definition day_card :: "int \<Rightarrow> pystr \<Rightarrow> pystr" where
  \<open>day_card day_num preview =
     concat
       [lit ''\<newline>'',
        lit ''        <div class="day-card">\<newline>'',
        lit ''            <div class="day-number">Day '', str_int day_num, lit ''</div>\<newline>'',
        lit ''            <div class="day-preview">'', preview, lit ''</div>\<newline>'',
        lit ''            <a href="day-'', str_int day_num, lit ''.html" class="day-link">View Details '', [8594], lit ''</a>\<newline>'',
        lit ''        </div>'']\<close>

definition dict_get :: "(int \<rightharpoonup> pystr) \<Rightarrow> int \<Rightarrow> pystr \<Rightarrow> pystr" where
  "dict_get d k dflt = (case d k of None \<Rightarrow> dflt | Some v \<Rightarrow> v)"

definition day_cards :: "(int \<rightharpoonup> pystr) \<Rightarrow> pystr" where
  "day_cards day_descriptions =
     foldl (\<lambda>acc day_num. acc @ day_card day_num (preview_text (dict_get day_descriptions day_num [])))
       [] [1 .. 100]"

definition generate_index_page :: "(int \<rightharpoonup> pystr) \<Rightarrow> pystr" where
  "generate_index_page day_descriptions = concat [index_t0, day_cards day_descriptions, index_t1]"


section \<open>Entities\<close>

text \<open>
  What the three substitutions of \<open>escape_content\<close> do to one character, and the reading of
  the specification's "decode the three entities": one pass from the left that replaces each
  of \<open>&amp;\<close>, \<open>&lt;\<close> and \<open>&gt;\<close> by its character. \<open>at_entity t\<close> says that \<open>t\<close>
  begins with one of the three entities.
\<close>

definition esc_char :: "nat \<Rightarrow> pystr" where
  "esc_char c =
     (if c = 38 then lit ''&amp;'' else if c = 60 then lit ''&lt;''
      else if c = 62 then lit ''&gt;'' else [c])"

fun decode_entities :: "pystr \<Rightarrow> pystr" where
  "decode_entities [] = []"
| "decode_entities (c # cs) =
     (if prefix (lit ''&amp;'') (c # cs) then 38 # decode_entities (drop 4 cs)
      else if prefix (lit ''&lt;'') (c # cs) then 60 # decode_entities (drop 3 cs)
      else if prefix (lit ''&gt;'') (c # cs) then 62 # decode_entities (drop 3 cs)
      else c # decode_entities cs)"

definition at_entity :: "pystr \<Rightarrow> bool" where
  "at_entity t = (prefix (lit ''&amp;'') t \<or> prefix (lit ''&lt;'') t \<or> prefix (lit ''&gt;'') t)"

section \<open>The preview line\<close>

text \<open>
  The specification's wording of the preview: the first line of the description that, after
  stripping, is not empty and does not begin with \<open>#\<close>.
\<close>

definition first_content_line :: "pystr \<Rightarrow> pystr option" where
  "first_content_line desc =
     find (\<lambda>l. l \<noteq> [] \<and> \<not> startswith l (lit ''#'')) (map strip (split_on 10 desc))"

section \<open>The day number of a match\<close>

text \<open>\<open>int(match.group(2))\<close>, when it has a value.\<close>

definition day_of :: "runtime \<Rightarrow> pystr \<Rightarrow> match \<Rightarrow> int option" where
  "day_of rt s m =
     (case group s m 2 of
        None \<Rightarrow> None
      | Some ds \<Rightarrow> (case py_int rt ds of Inl e \<Rightarrow> None | Inr k \<Rightarrow> Some k))"

section \<open>Sample documents\<close>

definition doc7 :: pystr where
  "doc7 = lit ''## Day 7: first\<newline>## Day 7: second\<newline>''"

definition doc_repeat :: pystr where
  "doc_repeat = lit ''## Day 7: first\<newline>## Day 6\<newline>## Day 7: second\<newline>''"

definition doc_swallow :: pystr where
  "doc_swallow = lit ''## Day 6\<newline>## Day 7: text\<newline>## Day 8: more\<newline>''"

definition doc_empty_body :: pystr where
  "doc_empty_body = lit ''## Day 7:\<newline>## Day 8: x\<newline>''"

definition doc_example :: pystr where
  "doc_example = lit ''## Day 1: Intro\<newline>Hello world\<newline>## Day 2\<newline>More text\<newline>''"

section \<open>The language tagger\<close>

text \<open>
  C9. \<open>get_language\<close> returns a tag for every filename: the tag of the fixed table when the
  suffix of the filename (as \<open>pathlib\<close> computes it) is one of the seven extensions
  \<open>.cu\<close>, \<open>.cuh\<close>, \<open>.cpp\<close>, \<open>.c\<close>, \<open>.h\<close>, \<open>.py\<close>, \<open>.md\<close>, and \<open>clike\<close> for every other
  filename. The comparison is case-sensitive, and a name without a suffix falls back too.
\<close>

theorem get_language_table:
  "get_language f =
     (if path_suffix f = lit ''.cu'' \<or> path_suffix f = lit ''.cuh'' then lit ''cuda''
      else if path_suffix f = lit ''.cpp'' then lit ''cpp''
      else if path_suffix f = lit ''.c'' \<or> path_suffix f = lit ''.h'' then lit ''c''
      else if path_suffix f = lit ''.py'' then lit ''python''
      else if path_suffix f = lit ''.md'' then lit ''markdown''
      else lit ''clike'')
   \<and> get_language (lit ''KERNEL.CU'') = lit ''clike''
   \<and> get_language (lit ''Makefile'') = lit ''clike''"
proof (intro conjI)
  show "get_language f =
     (if path_suffix f = lit ''.cu'' \<or> path_suffix f = lit ''.cuh'' then lit ''cuda''
      else if path_suffix f = lit ''.cpp'' then lit ''cpp''
      else if path_suffix f = lit ''.c'' \<or> path_suffix f = lit ''.h'' then lit ''c''
      else if path_suffix f = lit ''.py'' then lit ''python''
      else if path_suffix f = lit ''.md'' then lit ''markdown''
      else lit ''clike'')"
    by (simp add: get_language_def ext_map_def lit_def Let_def)
  show "get_language (lit ''KERNEL.CU'') = lit ''clike''"
    by (simp add: get_language_def ext_map_def lit_def Let_def path_suffix_def path_name_def
        rfind_def upt_rec)
  show "get_language (lit ''Makefile'') = lit ''clike''"
    by (simp add: get_language_def ext_map_def lit_def Let_def path_suffix_def path_name_def
        rfind_def upt_rec)
qed

lemma get_language_examples:
  "get_language (lit ''kernel.cu'') = lit ''cuda''"
  "get_language (lit ''src/util.cuh'') = lit ''cuda''"
  "get_language (lit ''a/b/main.cpp'') = lit ''cpp''"
  "get_language (lit ''x.h'') = lit ''c''"
  "get_language (lit ''.cu'') = lit ''clike''"
  by (simp_all add: get_language_def ext_map_def lit_def Let_def path_suffix_def path_name_def
      rfind_def upt_rec)

section \<open>Escaping of file content\<close>

lemma str_replace_single:
  "str_replace [c] new s = concat (map (\<lambda>x. if x = c then new else [x]) s)"
  by (induction s) auto

lemma escape_content_concat: "escape_content s = concat (map esc_char s)"
  by (induction s) (auto simp: escape_content_def str_replace_single esc_char_def lit_def)

lemma decode_esc_char: "decode_entities (esc_char c @ t) = c # decode_entities t"
  by (simp add: esc_char_def lit_def)

lemma decode_concat_esc: "decode_entities (concat (map esc_char s)) = s"
  by (induction s) (simp_all add: decode_esc_char)

lemma esc_char_no_angle: "60 \<notin> set (esc_char c)" "62 \<notin> set (esc_char c)"
  by (simp_all add: esc_char_def lit_def)

lemma esc_char_cases:
  "esc_char c = [38, 97, 109, 112, 59] \<or> esc_char c = [38, 108, 116, 59]
   \<or> esc_char c = [38, 103, 116, 59] \<or> (esc_char c = [c] \<and> c \<noteq> 38)"
  by (simp add: esc_char_def lit_def)

lemma esc_char_amp_index:
  assumes "i < length (esc_char c)" "esc_char c ! i = 38"
  shows "i = 0 \<and> at_entity (esc_char c @ t)"
  using assms esc_char_cases [of c]
  by (auto simp: at_entity_def lit_def nth_Cons' split: if_splits)

lemma amp_in_concat_esc:
  "i < length (concat (map esc_char s)) \<Longrightarrow> concat (map esc_char s) ! i = 38
   \<Longrightarrow> at_entity (drop i (concat (map esc_char s)))"
proof (induction s arbitrary: i)
  case Nil
  then show ?case by simp
next
  case (Cons c s)
  let ?e = "esc_char c" and ?r = "concat (map esc_char s)"
  show ?case
  proof (cases "i < length ?e")
    case True
    with Cons.prems have "?e ! i = 38" by (simp add: nth_append)
    with True have "i = 0 \<and> at_entity (?e @ ?r)" by (rule esc_char_amp_index)
    then show ?thesis by simp
  next
    case False
    with Cons.prems have "i - length ?e < length ?r" "?r ! (i - length ?e) = 38"
      by (auto simp: nth_append)
    then have "at_entity (drop (i - length ?e) ?r)" by (rule Cons.IH)
    with False show ?thesis by simp
  qed
qed

text \<open>
  C2. For every content string, the escaped string has no \<open><\<close> (60) and no \<open>>\<close> (62), every
  \<open>&\<close> (38) in it is the first character of one of the entities \<open>&amp;\<close>, \<open>&lt;\<close>,
  \<open>&gt;\<close>, and decoding the three entities gives the content back.
\<close>

theorem escape_content_entities_roundtrip:
  "60 \<notin> set (escape_content s) \<and> 62 \<notin> set (escape_content s)
   \<and> (\<forall>i < length (escape_content s).
         escape_content s ! i = 38 \<longrightarrow> at_entity (drop i (escape_content s)))
   \<and> decode_entities (escape_content s) = s"
  by (simp add: escape_content_concat decode_concat_esc esc_char_no_angle amp_in_concat_esc)

theorem escape_content_entities_roundtrip_witness:
  "7 < length (escape_content (lit ''a<b & c>''))
   \<and> escape_content (lit ''a<b & c>'') ! 7 = 38
   \<and> at_entity (drop 7 (escape_content (lit ''a<b & c>'')))
   \<and> escape_content (lit ''a<b & c>'') = lit ''a&lt;b &amp; c&gt;''
   \<and> decode_entities (lit ''a&lt;b &amp; c&gt;'') = lit ''a<b & c>''"
  using escape_content_entities_roundtrip [of "lit ''a<b & c>''"]
  by (simp add: escape_content_def lit_def at_entity_def)

section \<open>The day page\<close>

lemma foldl_append_concat:
  "foldl (\<lambda>acc x. acc @ g x) a xs = a @ concat (map g xs)"
  by (induction xs arbitrary: a) simp_all

lemma files_html_nonempty:
  "files \<noteq> [] \<Longrightarrow> files_html files = concat (map (\<lambda>(f, c). file_section f c) files)"
proof -
  have "(\<lambda>acc (filename, content). acc @ file_section filename content)
        = (\<lambda>acc x. acc @ (\<lambda>(f, c). file_section f c) x)"
    by (simp add: fun_eq_iff split: prod.splits)
  then show "files \<noteq> [] \<Longrightarrow> ?thesis"
    by (simp add: files_html_def foldl_append_concat)
qed

lemma sublist_file_section:
  assumes "(f, c) \<in> set files"
  shows "sublist (file_section f c) (files_html files)"
proof -
  from assms obtain xs ys where "files = xs @ (f, c) # ys"
    by (auto dest: split_list)
  then show ?thesis
    by (simp add: files_html_nonempty)
qed

lemma sublist_files_html: "sublist (files_html files) (generate_day_page n d files)"
proof -
  have "generate_day_page n d files =
        (day_t0 @ str_int n @ day_t1 @ str_int n @ day_t2 @ prev_link n @ day_t3 @ next_link n
          @ day_t4 @ (if d \<noteq> [] then d else no_description) @ day_t5)
        @ files_html files @ day_t6"
    by (simp add: generate_day_page_def)
  then show ?thesis
    by (metis sublist_appendI)
qed

lemma sublist_in_context:
  assumes "suffix l x" "prefix r y"
  shows "sublist (l @ m @ r) (p @ x @ m @ y @ q)"
proof -
  from assms obtain a b where "x = a @ l" "y = r @ b"
    by (auto simp: suffix_def prefix_def)
  then have "p @ x @ m @ y @ q = (p @ a) @ (l @ m @ r) @ (b @ q)" by simp
  then show ?thesis by (metis sublist_appendI)
qed

lemma day_t4_end: \<open>suffix (lit ''<div class="desc-content">\<newline>'') day_t4\<close>
  by (simp add: day_t4_def lit_def suffix_to_prefix)

lemma day_t5_begin: \<open>prefix (lit ''\<newline>            </div>'') day_t5\<close>
  by (simp add: day_t5_def lit_def)

lemma day_t5_end: \<open>suffix (lit ''Code Files</h2>\<newline>'') day_t5\<close>
  by (simp add: day_t5_def lit_def suffix_to_prefix)

lemma day_t6_begin: \<open>prefix (lit ''\<newline>    </div>'') day_t6\<close>
  by (simp add: day_t6_def lit_def)

lemma day_t2_end: \<open>suffix (lit ''<div>\<newline>                '') day_t2\<close>
  by (simp add: day_t2_def lit_def suffix_to_prefix)

lemma day_t3_eq: \<open>day_t3 = lit ''\<newline>                ''\<close>
  by (simp add: day_t3_def lit_def)

lemma day_t4_begin: \<open>prefix (lit ''\<newline>            </div>\<newline>        </div>\<newline>    </nav>'') day_t4\<close>
  by (simp add: day_t4_def lit_def)

lemma lit_append: "lit (a @ b) = lit a @ lit b"
  by (simp add: lit_def)

lemma sublist_description:
  \<open>sublist (lit ''<div class="desc-content">\<newline>'' @ (if d \<noteq> [] then d else no_description)
            @ lit ''\<newline>            </div>'')
     (generate_day_page n d files)\<close>
proof -
  have "generate_day_page n d files =
        (day_t0 @ str_int n @ day_t1 @ str_int n @ day_t2 @ prev_link n @ day_t3 @ next_link n)
        @ day_t4 @ (if d \<noteq> [] then d else no_description) @ day_t5 @ (files_html files @ day_t6)"
    (is "_ = ?rhs")
    by (simp add: generate_day_page_def)
  moreover have \<open>sublist (lit ''<div class="desc-content">\<newline>'' @ (if d \<noteq> [] then d else no_description)
            @ lit ''\<newline>            </div>'') ?rhs\<close>
    by (rule sublist_in_context [OF day_t4_end day_t5_begin])
  ultimately show ?thesis by simp
qed

lemma sublist_files_block:
  \<open>sublist (lit ''Code Files</h2>\<newline>'' @ files_html files @ lit ''\<newline>    </div>'')
     (generate_day_page n d files)\<close>
proof -
  have "generate_day_page n d files =
        (day_t0 @ str_int n @ day_t1 @ str_int n @ day_t2 @ prev_link n @ day_t3 @ next_link n
          @ day_t4 @ (if d \<noteq> [] then d else no_description))
        @ day_t5 @ files_html files @ day_t6 @ []"
    (is "_ = ?rhs")
    by (simp add: generate_day_page_def)
  moreover have \<open>sublist (lit ''Code Files</h2>\<newline>'' @ files_html files @ lit ''\<newline>    </div>'') ?rhs\<close>
    by (rule sublist_in_context [OF day_t5_end day_t6_begin])
  ultimately show ?thesis by simp
qed

lemma sublist_nav:
  \<open>sublist (lit ''<div>\<newline>                '' @ prev_link n @ lit ''\<newline>                ''
            @ next_link n @ lit ''\<newline>            </div>\<newline>        </div>\<newline>    </nav>'')
     (generate_day_page n d files)\<close>
proof -
  let ?m = "prev_link n @ day_t3 @ next_link n"
  have "generate_day_page n d files =
        (day_t0 @ str_int n @ day_t1 @ str_int n)
        @ day_t2 @ ?m @ day_t4
        @ ((if d \<noteq> [] then d else no_description) @ day_t5 @ files_html files @ day_t6)"
    (is "_ = ?rhs")
    by (simp add: generate_day_page_def)
  moreover have "sublist (lit ''<div>\<newline>                '' @ ?m
       @ lit ''\<newline>            </div>\<newline>        </div>\<newline>    </nav>'') ?rhs"
    by (rule sublist_in_context [OF day_t2_end day_t4_begin])
  ultimately have "sublist (lit ''<div>\<newline>                '' @ ?m
       @ lit ''\<newline>            </div>\<newline>        </div>\<newline>    </nav>'') (generate_day_page n d files)"
    by simp
  then show ?thesis by (simp only: day_t3_eq append_assoc)
qed

lemma file_section_heading:
  \<open>sublist (lit ''    <div class="file-section">\<newline>        <h3>'' @ f
            @ lit ''</h3>\<newline>        <pre><code class="language-'' @ get_language f @ lit ''">'')
     (file_section f c)\<close>
proof -
  have \<open>file_section f c = lit ''\<newline>''
        @ (lit ''    <div class="file-section">\<newline>        <h3>'' @ f
            @ lit ''</h3>\<newline>        <pre><code class="language-'' @ get_language f @ lit ''">'')
        @ (escape_content c @ lit ''</code></pre>\<newline>    </div>\<newline>'')\<close>
    by (simp add: file_section_def Let_def lit_def)
  then show ?thesis by (metis sublist_appendI)
qed

lemma file_section_code:
  \<open>sublist (lit ''<pre><code class="language-'' @ get_language f @ lit ''">'' @ escape_content c
            @ lit ''</code></pre>'')
     (file_section f c)\<close>
proof -
  have \<open>file_section f c = lit ''\<newline>    <div class="file-section">\<newline>        <h3>'' @ f @ lit ''</h3>\<newline>        ''
        @ (lit ''<pre><code class="language-'' @ get_language f @ lit ''">'' @ escape_content c
            @ lit ''</code></pre>'')
        @ lit ''\<newline>    </div>\<newline>''\<close>
    by (simp add: file_section_def Let_def lit_def)
  then show ?thesis
    by (metis append.assoc sublist_appendI)
qed

lemma sublist_trans3:
  "sublist a b \<Longrightarrow> sublist b c \<Longrightarrow> sublist c d \<Longrightarrow> sublist a d"
  by (meson sublist_order.order_trans)

text \<open>
  C3. The content of a code file is embedded after three substitutions, ampersand, then
  less-than, then greater-than, every character being replaced at most once; the description
  of the day is embedded as it is.
\<close>

theorem escaping_of_content_only:
  \<open>escape_content content =
     str_replace [62] (lit ''&gt;'') (str_replace [60] (lit ''&lt;'') (str_replace [38] (lit ''&amp;'') content))
   \<and> escape_content (lit ''<&>'') = lit ''&lt;&amp;&gt;''
   \<and> ((filename, content) \<in> set files \<longrightarrow>
        sublist (lit ''<pre><code class="language-'' @ get_language filename @ lit ''">''
                 @ escape_content content @ lit ''</code></pre>'')
          (generate_day_page day_num description files))
   \<and> (description \<noteq> [] \<longrightarrow>
        sublist (lit ''<div class="desc-content">\<newline>'' @ description @ lit ''\<newline>            </div>'')
          (generate_day_page day_num description files))\<close>
proof (intro conjI impI)
  show "escape_content content =
     str_replace [62] (lit ''&gt;'') (str_replace [60] (lit ''&lt;'') (str_replace [38] (lit ''&amp;'') content))"
    by (simp add: escape_content_def)
  show "escape_content (lit ''<&>'') = lit ''&lt;&amp;&gt;''"
    by (simp add: escape_content_def lit_def)
next
  assume "(filename, content) \<in> set files"
  then have "sublist (file_section filename content) (files_html files)"
    by (rule sublist_file_section)
  from file_section_code [of filename content] this
    sublist_files_html [of files day_num description]
  show \<open>sublist (lit ''<pre><code class="language-'' @ get_language filename @ lit ''">''
                 @ escape_content content @ lit ''</code></pre>'')
          (generate_day_page day_num description files)\<close>
    by (rule sublist_trans3)
next
  assume "description \<noteq> []"
  with sublist_description [of description day_num files]
  show \<open>sublist (lit ''<div class="desc-content">\<newline>'' @ description @ lit ''\<newline>            </div>'')
          (generate_day_page day_num description files)\<close>
    by simp
qed

theorem escaping_of_content_only_witness:
  \<open>sublist (lit ''<pre><code class="language-cuda">a &amp; b</code></pre>'')
     (generate_day_page 3 (lit ''<b>x & y</b>'') [(lit ''kernel.cu'', lit ''a & b'')])
   \<and> sublist (lit ''<div class="desc-content">\<newline><b>x & y</b>\<newline>            </div>'')
     (generate_day_page 3 (lit ''<b>x & y</b>'') [(lit ''kernel.cu'', lit ''a & b'')])\<close>
proof -
  have lang: "get_language (lit ''kernel.cu'') = lit ''cuda''"
    by (simp add: get_language_def ext_map_def lit_def Let_def path_suffix_def path_name_def
        rfind_def upt_rec)
  have esc: "escape_content (lit ''a & b'') = lit ''a &amp; b''"
    by (simp add: escape_content_def lit_def)
  have ne: "lit ''<b>x & y</b>'' \<noteq> []"
    by (simp add: lit_def)
  show ?thesis
    using escaping_of_content_only [of "lit ''a & b''" "lit ''kernel.cu''"
        "[(lit ''kernel.cu'', lit ''a & b'')]" 3 "lit ''<b>x & y</b>''"] ne
    by (simp add: lang esc lit_append [symmetric])
qed

text \<open>
  C7. A day page rendered with an empty description holds the sentence
  "No description available for this day." in its description block, and a day page rendered
  with an empty file list holds the sentence "No code files found for this day." as its
  code-files section.
\<close>

theorem placeholders_for_empty_inputs:
  \<open>sublist (lit ''<div class="desc-content">\<newline><p>No description available for this day.</p>\<newline>            </div>'')
     (generate_day_page day_num [] files)
   \<and> sublist (lit ''Code Files</h2>\<newline><p class="no-files">No code files found for this day.</p>\<newline>    </div>'')
     (generate_day_page day_num description [])\<close>
proof
  show \<open>sublist (lit ''<div class="desc-content">\<newline><p>No description available for this day.</p>\<newline>            </div>'')
     (generate_day_page day_num [] files)\<close>
    using sublist_description [of "[]" day_num files]
    by (simp add: no_description_def lit_append [symmetric])
  show \<open>sublist (lit ''Code Files</h2>\<newline><p class="no-files">No code files found for this day.</p>\<newline>    </div>'')
     (generate_day_page day_num description [])\<close>
    using sublist_files_block [of "[]" day_num description]
    by (simp add: files_html_def no_files_def lit_append [symmetric])
qed

text \<open>
  C10. The relative path of every file of a day page stands unescaped in the heading of its
  section, whatever characters it has.
\<close>

theorem filename_verbatim_in_heading:
  \<open>(filename, content) \<in> set files \<Longrightarrow>
     sublist (lit ''    <div class="file-section">\<newline>        <h3>'' @ filename
              @ lit ''</h3>\<newline>        <pre><code class="language-'' @ get_language filename @ lit ''">'')
       (generate_day_page day_num description files)\<close>
proof -
  assume "(filename, content) \<in> set files"
  then have "sublist (file_section filename content) (files_html files)"
    by (rule sublist_file_section)
  from file_section_heading [of filename content] this
    sublist_files_html [of files day_num description]
  show ?thesis
    by (rule sublist_trans3)
qed

theorem filename_verbatim_in_heading_witness:
  \<open>sublist (lit ''    <div class="file-section">\<newline>        <h3><b>&x.cu</h3>\<newline>        <pre><code class="language-cuda">'')
     (generate_day_page 3 [] [(lit ''<b>&x.cu'', lit ''a < b'')])\<close>
proof -
  have lang: "get_language (lit ''<b>&x.cu'') = lit ''cuda''"
    by (simp add: get_language_def ext_map_def lit_def Let_def path_suffix_def path_name_def
        rfind_def upt_rec)
  show ?thesis
    using filename_verbatim_in_heading [of "lit ''<b>&x.cu''" "lit ''a < b''"
        "[(lit ''<b>&x.cu'', lit ''a < b'')]" 3 "[]"]
    by (simp add: lang lit_append [symmetric])
qed

text \<open>
  C8. The navigation bar of the page of day \<open>n\<close> holds, in this order, the link to day
  \<open>n - 1\<close> when \<open>1 < n\<close> and nothing otherwise, and the link to day \<open>n + 1\<close> when
  \<open>n < 100\<close> and nothing otherwise.
\<close>

theorem navigation_links:
  \<open>(prev_link n = [] \<longleftrightarrow> \<not> 1 < n)
   \<and> (next_link n = [] \<longleftrightarrow> \<not> n < 100)
   \<and> (1 < n \<longrightarrow> prev_link n =
         lit ''<a href="day-'' @ str_int (n - 1) @ lit ''.html">'' @ [8592] @ lit '' Day '' @ str_int (n - 1) @ lit ''</a>'')
   \<and> (n < 100 \<longrightarrow> next_link n =
         lit ''<a href="day-'' @ str_int (n + 1) @ lit ''.html">Day '' @ str_int (n + 1) @ lit '' '' @ [8594] @ lit ''</a>'')
   \<and> sublist (lit ''<div>\<newline>                '' @ prev_link n @ lit ''\<newline>                ''
              @ next_link n @ lit ''\<newline>            </div>\<newline>        </div>\<newline>    </nav>'')
        (generate_day_page n description files)\<close>
proof (intro conjI)
  show "prev_link n = [] \<longleftrightarrow> \<not> 1 < n"
    by (simp add: prev_link_def lit_def)
  show "next_link n = [] \<longleftrightarrow> \<not> n < 100"
    by (simp add: next_link_def lit_def)
  show \<open>1 < n \<longrightarrow> prev_link n =
         lit ''<a href="day-'' @ str_int (n - 1) @ lit ''.html">'' @ [8592] @ lit '' Day '' @ str_int (n - 1) @ lit ''</a>''\<close>
    by (simp add: prev_link_def)
  show \<open>n < 100 \<longrightarrow> next_link n =
         lit ''<a href="day-'' @ str_int (n + 1) @ lit ''.html">Day '' @ str_int (n + 1) @ lit '' '' @ [8594] @ lit ''</a>''\<close>
    by (simp add: next_link_def)
  show \<open>sublist (lit ''<div>\<newline>                '' @ prev_link n @ lit ''\<newline>                ''
              @ next_link n @ lit ''\<newline>            </div>\<newline>        </div>\<newline>    </nav>'')
        (generate_day_page n description files)\<close>
    by (rule sublist_nav)
qed

theorem navigation_links_witness:
  \<open>prev_link 1 = []
   \<and> sublist (lit ''<div>\<newline>                \<newline>                <a href="day-2.html">Day 2 '' @ [8594]
              @ lit ''</a>\<newline>            </div>\<newline>        </div>\<newline>    </nav>'')
        (generate_day_page 1 [] [])
   \<and> next_link 100 = []
   \<and> sublist (lit ''<div>\<newline>                <a href="day-99.html">'' @ [8592] @ lit '' Day 99</a>\<newline>                \<newline>            </div>\<newline>        </div>\<newline>    </nav>'')
        (generate_day_page 100 [] [])
   \<and> sublist (lit ''<div>\<newline>                <a href="day-49.html">'' @ [8592] @ lit '' Day 49</a>\<newline>                <a href="day-51.html">Day 51 '' @ [8594]
              @ lit ''</a>\<newline>            </div>\<newline>        </div>\<newline>    </nav>'')
        (generate_day_page 50 [] [])\<close>
proof -
  have d: "str_int 2 = lit ''2''" "str_int 99 = lit ''99''" "str_int 49 = lit ''49''" "str_int 51 = lit ''51''"
    by (simp_all add: str_int_def digits.simps lit_def)
  have p1: "prev_link 1 = []" and n100: "next_link 100 = []"
    by (simp_all add: prev_link_def next_link_def)
  have n1: \<open>next_link 1 = lit ''<a href="day-2.html">Day 2 '' @ [8594] @ lit ''</a>''\<close>
    using navigation_links [of 1 "[]" "[]"] by (simp add: d lit_append [symmetric])
  have p100: \<open>prev_link 100 = lit ''<a href="day-99.html">'' @ [8592] @ lit '' Day 99</a>''\<close>
    using navigation_links [of 100 "[]" "[]"] by (simp add: d lit_append [symmetric])
  have p50: \<open>prev_link 50 = lit ''<a href="day-49.html">'' @ [8592] @ lit '' Day 49</a>''\<close>
    and n50: \<open>next_link 50 = lit ''<a href="day-51.html">Day 51 '' @ [8594] @ lit ''</a>''\<close>
    using navigation_links [of 50 "[]" "[]"] by (simp_all add: d lit_append [symmetric])
  have s1: \<open>sublist (lit ''<div>\<newline>                '' @ prev_link 1 @ lit ''\<newline>                ''
              @ next_link 1 @ lit ''\<newline>            </div>\<newline>        </div>\<newline>    </nav>'')
        (generate_day_page 1 [] [])\<close>
    using navigation_links [of 1 "[]" "[]"] by blast
  have s100: \<open>sublist (lit ''<div>\<newline>                '' @ prev_link 100 @ lit ''\<newline>                ''
              @ next_link 100 @ lit ''\<newline>            </div>\<newline>        </div>\<newline>    </nav>'')
        (generate_day_page 100 [] [])\<close>
    using navigation_links [of 100 "[]" "[]"] by blast
  have s50: \<open>sublist (lit ''<div>\<newline>                '' @ prev_link 50 @ lit ''\<newline>                ''
              @ next_link 50 @ lit ''\<newline>            </div>\<newline>        </div>\<newline>    </nav>'')
        (generate_day_page 50 [] [])\<close>
    using navigation_links [of 50 "[]" "[]"] by blast
  show ?thesis
    using s1 s100 s50 by (simp add: p1 n1 p100 n100 p50 n50 lit_def)
qed

section \<open>The index page\<close>

lemma day_cards_concat:
  "day_cards descs =
     concat (map (\<lambda>k. day_card k (preview_text (dict_get descs k []))) [1 .. 100])"
  by (simp only: day_cards_def foldl_append_concat append_Nil)

lemma length_upto_100: "length [1 .. (100::int)] = 100"
  by simp

lemma nth_upto_100: "i < 100 \<Longrightarrow> [1 .. (100::int)] ! i = int i + 1"
  by (simp add: nth_upto)

lemma first_preview_find:
  "first_preview ls =
     (case find (\<lambda>l. l \<noteq> [] \<and> \<not> startswith l (lit ''#'')) (map strip ls) of
        None \<Rightarrow> []
      | Some l \<Rightarrow> take 150 l @ (if 150 < length l then lit ''...'' else []))"
  by (induction ls) (simp_all add: Let_def)

lemma split_on_empty: "split_on c [] = [[]]"
  by simp

lemma preview_text_find:
  "preview_text desc =
     (case first_content_line desc of
        None \<Rightarrow> lit ''Click to view details''
      | Some l \<Rightarrow> take 150 l @ (if 150 < length l then lit ''...'' else []))"
proof (cases "desc = []")
  case True
  then show ?thesis
    by (simp add: preview_text_def first_content_line_def strip_def)
next
  case False
  show ?thesis
  proof (cases "first_content_line desc")
    case None
    with False show ?thesis
      by (simp add: preview_text_def first_preview_find first_content_line_def)
  next
    case (Some l)
    then have "l \<noteq> []"
      by (auto simp: first_content_line_def find_Some_iff)
    with False Some show ?thesis
      by (simp add: preview_text_def first_preview_find first_content_line_def Let_def)
  qed
qed

lemma sublist_concat_member: "x \<in> set xs \<Longrightarrow> sublist x (concat xs)"
  by (auto dest!: split_list)

lemma sublist_card_in_index:
  assumes "1 \<le> n" "n \<le> 100"
  shows "sublist (day_card n (preview_text (dict_get descs n []))) (generate_index_page descs)"
proof -
  from assms have "n \<in> set [1 .. 100]" by simp
  then have "day_card n (preview_text (dict_get descs n []))
      \<in> set (map (\<lambda>k. day_card k (preview_text (dict_get descs k []))) [1 .. 100])"
    by (simp only: set_map) (rule imageI)
  then have "sublist (day_card n (preview_text (dict_get descs n []))) (day_cards descs)"
    unfolding day_cards_concat by (rule sublist_concat_member)
  moreover have "sublist (day_cards descs) (generate_index_page descs)"
    by (simp add: generate_index_page_def)
  ultimately show ?thesis
    by (rule sublist_order.order_trans)
qed

lemma day_card_preview:
  \<open>sublist (lit ''<div class="day-number">Day '' @ str_int n @ lit ''</div>\<newline>            <div class="day-preview">''
      @ p @ lit ''</div>'') (day_card n p)\<close>
proof -
  have \<open>day_card n p = lit ''\<newline>        <div class="day-card">\<newline>            ''
      @ (lit ''<div class="day-number">Day '' @ str_int n @ lit ''</div>\<newline>            <div class="day-preview">''
      @ p @ lit ''</div>'')
      @ (lit ''\<newline>            <a href="day-'' @ str_int n @ lit ''.html" class="day-link">View Details ''
          @ [8594] @ lit ''</a>\<newline>        </div>'')\<close>
    by (simp add: day_card_def lit_def)
  then show ?thesis by (metis sublist_appendI)
qed

lemma split_on_no_sep: "c \<notin> set s \<Longrightarrow> split_on c s = [s]"
  by (induction s) auto

lemma dropWhile_none: "\<forall>c \<in> set s. \<not> p c \<Longrightarrow> dropWhile p s = s"
  by (cases s) auto

lemma strip_no_space: "\<forall>c \<in> set s. \<not> isspace c \<Longrightarrow> strip s = s"
  by (simp add: strip_def dropWhile_none)

lemma not_startswith: "c \<notin> set s \<Longrightarrow> \<not> startswith s [c]"
  by (auto simp: startswith_def dest: set_mono_prefix)



text \<open>
  C6. The preview of a description is its first line that, stripped, is not empty and does
  not begin with \<open>#\<close>, cut to 150 characters and followed by \<open>...\<close> exactly when the
  line has more than 150; without such a line it is "Click to view details". The card of
  every day from 1 to 100 shows the preview of that day's description.
\<close>

theorem preview_of_day_card:
  \<open>preview_text desc =
     (case first_content_line desc of
        None \<Rightarrow> lit ''Click to view details''
      | Some l \<Rightarrow> take 150 l @ (if 150 < length l then lit ''...'' else []))
   \<and> (1 \<le> n \<and> n \<le> 100 \<longrightarrow>
        sublist (lit ''<div class="day-number">Day '' @ str_int n @ lit ''</div>\<newline>            <div class="day-preview">''
                 @ preview_text (dict_get descs n []) @ lit ''</div>'')
          (generate_index_page descs))\<close>
proof (intro conjI impI)
  show "preview_text desc =
     (case first_content_line desc of
        None \<Rightarrow> lit ''Click to view details''
      | Some l \<Rightarrow> take 150 l @ (if 150 < length l then lit ''...'' else []))"
    by (rule preview_text_find)
  assume "1 \<le> n \<and> n \<le> 100"
  then have "sublist (day_card n (preview_text (dict_get descs n []))) (generate_index_page descs)"
    by (simp add: sublist_card_in_index)
  with day_card_preview [of n "preview_text (dict_get descs n [])"]
  show \<open>sublist (lit ''<div class="day-number">Day '' @ str_int n @ lit ''</div>\<newline>            <div class="day-preview">''
                 @ preview_text (dict_get descs n []) @ lit ''</div>'')
          (generate_index_page descs)\<close>
    by (rule sublist_order.order_trans)
qed

theorem preview_of_day_card_witness:
  \<open>preview_text (lit ''# Title\<newline>\<newline>  Hello world  \<newline>more'') = lit ''Hello world''
   \<and> preview_text (lit ''# only a header'') = lit ''Click to view details''
   \<and> preview_text (replicate 151 120) = replicate 150 120 @ lit ''...''
   \<and> sublist (lit ''<div class="day-number">Day 1</div>\<newline>            <div class="day-preview">Hello world</div>'')
        (generate_index_page (Map.empty(1 \<mapsto> lit ''# Title\<newline>\<newline>  Hello world  \<newline>more'')))\<close>
proof -
  let ?d = \<open>lit ''# Title\<newline>\<newline>  Hello world  \<newline>more''\<close>
  have f1: "first_content_line ?d = Some (lit ''Hello world'')"
    by (simp add: first_content_line_def lit_def strip_def isspace_def startswith_def)
  have f2: "first_content_line (lit ''# only a header'') = None"
    by (simp add: first_content_line_def lit_def strip_def isspace_def startswith_def)
  have "strip (replicate 151 120) = replicate 151 120"
    by (rule strip_no_space) (simp add: isspace_def)
  moreover have "split_on 10 (replicate 151 120) = [replicate 151 120]"
    by (rule split_on_no_sep) simp
  moreover have "replicate 151 (120::nat) \<noteq> []"
    by simp
  moreover have "\<not> startswith (replicate 151 120) (lit ''#'')"
    using not_startswith [of 35 "replicate 151 120"] by (simp add: lit_def)
  ultimately have f3: "first_content_line (replicate 151 120) = Some (replicate 151 120)"
    by (simp add: first_content_line_def)
  have "preview_text ?d = take 150 (lit ''Hello world'')
      @ (if 150 < length (lit ''Hello world'') then lit ''...'' else [])"
    using preview_of_day_card [where desc = ?d, THEN conjunct1] by (simp add: f1)
  then have p1: "preview_text ?d = lit ''Hello world''"
    by (simp add: lit_def)
  have p2: "preview_text (lit ''# only a header'') = lit ''Click to view details''"
    using preview_of_day_card [where desc = "lit ''# only a header''", THEN conjunct1]
    by (simp add: f2)
  have p3: "preview_text (replicate 151 120) = replicate 150 120 @ lit ''...''"
    using preview_of_day_card [where desc = "replicate 151 120", THEN conjunct1]
    by (simp add: f3)
  have d1: "str_int 1 = lit ''1''"
    by (simp add: str_int_def digits.simps lit_def)
  have \<open>sublist (lit ''<div class="day-number">Day '' @ str_int 1 @ lit ''</div>\<newline>            <div class="day-preview">''
                 @ preview_text (dict_get (Map.empty(1 \<mapsto> ?d)) 1 []) @ lit ''</div>'')
          (generate_index_page (Map.empty(1 \<mapsto> ?d)))\<close>
    using preview_of_day_card [where n = 1 and descs = "Map.empty(1 \<mapsto> ?d)", THEN conjunct2]
    by simp
  then have \<open>sublist (lit ''<div class="day-number">Day 1</div>\<newline>            <div class="day-preview">Hello world</div>'')
        (generate_index_page (Map.empty(1 \<mapsto> ?d)))\<close>
    by (simp add: dict_get_def p1 d1 lit_append [symmetric])
  with p1 p2 p3 show ?thesis by blast
qed

section \<open>The extraction\<close>

lemmas regex_eval =
  lit_def parse_readme_def finditer_def pattern_def seqs_def match_at_def group_def
  py_int_def ascii_runtime_def isdecimal_def isspace_def is_hash_def any_char_def strip_def
  upt_rec Let_def day_of_def

lemma collect_append:
  "collect rt s (xs @ ys) d =
     (case collect rt s xs d of Inl e \<Rightarrow> Inl e | Inr d' \<Rightarrow> collect rt s ys d')"
  by (induction xs arbitrary: d) (auto split: option.splits sum.splits)

lemma collect_step:
  assumes "collect rt s (m # ms) d = Inr d'" "day_of rt s m = Some k" "group s m 3 = Some t"
  shows "collect rt s ms (d(k \<mapsto> strip t)) = Inr d'"
  using assms by (auto simp: day_of_def split: option.splits sum.splits)

lemma collect_other_days:
  "collect rt s ms d = Inr d' \<Longrightarrow> \<forall>m \<in> set ms. day_of rt s m \<noteq> Some k \<Longrightarrow> d' k = d k"
proof (induction ms arbitrary: d)
  case Nil
  then show ?case by simp
next
  case (Cons m ms)
  from Cons.prems(1) obtain ds j t where m:
    "group s m 2 = Some ds" "py_int rt ds = Inr j" "group s m 3 = Some t"
    "collect rt s ms (d(j \<mapsto> strip t)) = Inr d'"
    by (auto split: option.splits sum.splits)
  with Cons.prems(2) have "j \<noteq> k"
    by (auto simp: day_of_def)
  moreover from Cons.prems(2) have "\<forall>m \<in> set ms. day_of rt s m \<noteq> Some k"
    by simp
  with m(4) have "d' k = (d(j \<mapsto> strip t)) k"
    by (rule Cons.IH)
  ultimately show ?case by simp
qed

lemma doc7_matches:
  "\<exists>a b. finditer (pattern ascii_runtime) doc7 = [] @ [a] @ [] @ [b] @ []
     \<and> day_of ascii_runtime doc7 a = Some 7 \<and> day_of ascii_runtime doc7 b = Some 7
     \<and> group doc7 a 3 = Some (lit ''first'') \<and> group doc7 b 3 = Some (lit ''second\<newline>'')"
  by (simp add: doc7_def regex_eval)

lemma doc7_parse:
  "\<exists>d. parse_readme ascii_runtime (Some doc7) = Inr d"
  by (simp add: doc7_def regex_eval)

text \<open>
  The loop over the matches: of two matches \<open>a\<close> and \<open>b\<close> of the same day number,
  \<open>b\<close> the later one and no match of that number after it, the mapping holds the stripped
  description of \<open>b\<close>. This is about the matches of the pattern; a header line of the
  document that the pattern does not match is outside it.
\<close>

lemma last_match_wins:
  assumes "parse_readme rt (Some content) = Inr d"
    and "finditer (pattern rt) content = ms1 @ [a] @ ms2 @ [b] @ ms3"
    and "day_of rt content a = Some k"
    and "day_of rt content b = Some k"
    and "\<forall>m \<in> set ms3. day_of rt content m \<noteq> Some k"
    and "group content b 3 = Some t"
  shows "d k = Some (strip t)"
proof -
  from assms(1,2) have "collect rt content ((ms1 @ [a] @ ms2) @ b # ms3) Map.empty = Inr d"
    by (simp add: parse_readme_def)
  then obtain d1 where "collect rt content (b # ms3) d1 = Inr d"
    unfolding collect_append by (auto split: sum.splits)
  with assms(4,6) have "collect rt content ms3 (d1(k \<mapsto> strip t)) = Inr d"
    by (intro collect_step)
  with assms(5) have "d k = (d1(k \<mapsto> strip t)) k"
    by (intro collect_other_days)
  then show ?thesis by simp
qed

lemma last_match_wins_adjacent_headers:
  "\<exists>d. parse_readme ascii_runtime (Some doc7) = Inr d \<and> d 7 = Some (lit ''second'')"
proof -
  obtain a b where m:
    "finditer (pattern ascii_runtime) doc7 = [] @ [a] @ [] @ [b] @ []"
    "day_of ascii_runtime doc7 a = Some 7" "day_of ascii_runtime doc7 b = Some 7"
    "group doc7 b 3 = Some (lit ''second\<newline>'')"
    using doc7_matches by blast
  obtain d where d: "parse_readme ascii_runtime (Some doc7) = Inr d"
    using doc7_parse by blast
  have "\<forall>m \<in> set []. day_of ascii_runtime doc7 m \<noteq> Some 7"
    by simp
  with d m have "d 7 = Some (strip (lit ''second\<newline>''))"
    by (intro last_match_wins [where a = a and b = b and ?ms1.0 = "[]" and ?ms2.0 = "[]" and ?ms3.0 = "[]"])
  moreover have "strip (lit ''second\<newline>'') = lit ''second''"
    by (simp add: strip_def lit_def isspace_def)
  ultimately show ?thesis using d by simp
qed

text \<open>
  C4. A document in which the header of day 7 appears twice and the extraction returns the
  description of the earlier occurrence: between the two stands the header of day 6 without
  text, the newline that ends it is consumed by the header part of the pattern, the
  lookahead finds no newline in front of the second \<open>## Day 7\<close>, and that line becomes
  the description of day 6. The pattern matches twice only, and day 7 keeps \<open>first\<close>.
\<close>

theorem parse_readme_keeps_earlier_occurrence:
  "\<exists>d. parse_readme ascii_runtime (Some doc_repeat) = Inr d
     \<and> d 7 = Some (lit ''first'') \<and> d 6 = Some (lit ''## Day 7: second'')
     \<and> length (finditer (pattern ascii_runtime) doc_repeat) = 2"
  by (simp add: doc_repeat_def regex_eval)

text \<open>
  C1. A document with the header \<open>## Day 7: text\<close> followed by the header \<open>## Day 8\<close>
  on which the extraction returns no entry for day 7: the section of day 6 before it has no
  text, the newline that ends its header line is consumed by the header part of the
  pattern, the lookahead for the next header then finds no newline in front of
  \<open>## Day 7\<close>, and the line of day 7 ends up as the description of day 6.
\<close>

theorem parse_readme_loses_day_after_empty_section:
  "\<exists>d. parse_readme ascii_runtime (Some doc_swallow) = Inr d
     \<and> d 6 = Some (lit ''## Day 7: text'') \<and> d 7 = None \<and> d 8 = Some (lit ''more'')"
  by (simp add: doc_swallow_def regex_eval)

lemma parse_readme_empty_body:
  "\<exists>d. parse_readme ascii_runtime (Some doc_empty_body) = Inr d
     \<and> d 7 = Some (lit ''## Day 8: x'') \<and> d 8 = None"
  by (simp add: doc_empty_body_def regex_eval)

lemma parse_readme_example:
  "\<exists>d. parse_readme ascii_runtime (Some doc_example) = Inr d
     \<and> d 1 = Some (lit ''Intro\<newline>Hello world'') \<and> d 2 = Some (lit ''More text'')
     \<and> dom d = {1, 2}"
  by (simp add: doc_example_def regex_eval insert_commute)

lemma parse_readme_missing: "parse_readme rt None = Inr Map.empty"
  by (simp add: parse_readme_def)


end
